theory Spec2Isabelle
  imports Complex_Main "HOL-Library.Log_Nat"
begin

section \<open>Python floats\<close>

text \<open>
  The signal engine of \<^verbatim>\<open>offchain/prediction/signal_engine.py\<close> works on Python
  \<^verbatim>\<open>float\<close>s (IEEE 754 binary64) and on Python's unbounded \<^verbatim>\<open>int\<close>s. A float is
  a finite rational, an infinity or NaN. The sign of zero is not kept: the engine only
  compares, subtracts, multiplies and truncates, and none of these tells \<^verbatim>\<open>-0.0\<close>
  from \<^verbatim>\<open>0.0\<close> (division by either raises).
\<close>

datatype pyfloat = Fin rat | PosInf | NegInf | NaN

datatype py_error = ValueError string | OverflowError string | ZeroDivisionError string

definition pow2 :: "int \<Rightarrow> rat" where
  "pow2 k = (if 0 \<le> k then 2 ^ nat k else 1 / 2 ^ nat (- k))"

text \<open>
  The exponent \<open>e\<close> with \<open>2 ^ e \<le> a < 2 ^ (e + 1)\<close>, for a positive \<open>a\<close>: one less than
  the bit length of the integer part from 1 on, and below 1 the negated number of bits
  that the reciprocal needs.
\<close>

definition floor_log2 :: "rat \<Rightarrow> int" where
  "floor_log2 a = (if 1 \<le> a then bitlen \<lfloor>a\<rfloor> - 1 else - bitlen (\<lceil>1 / a\<rceil> - 1))"

definition round_half_even :: "rat \<Rightarrow> int" where
  "round_half_even x =
     (let f = \<lfloor>x\<rfloor>; r = x - of_int f
      in if r < 1 / 2 then f
         else if 1 / 2 < r then f + 1
         else if even f then f else f + 1)"

text \<open>
  Rounding of an exact result to binary64, to nearest with ties to even: 53 significant
  bits, subnormals below \<open>2 ^ (-1022)\<close>, overflow to an infinity from \<open>2 ^ 1024\<close> on.
\<close>

definition round64 :: "rat \<Rightarrow> pyfloat" where
  "round64 q =
     (if q = 0 then Fin 0
      else
        let a = \<bar>q\<bar>;
            e = max (floor_log2 a) (- 1022);
            ulp = pow2 (e - 52);
            r = of_int (round_half_even (a / ulp)) * ulp
        in if pow2 1024 \<le> r then (if 0 < q then PosInf else NegInf)
           else Fin (if 0 < q then r else - r))"

fun py_le :: "pyfloat \<Rightarrow> pyfloat \<Rightarrow> bool" where
  "py_le NaN _ = False"
| "py_le _ NaN = False"
| "py_le NegInf _ = True"
| "py_le _ PosInf = True"
| "py_le PosInf _ = False"
| "py_le _ NegInf = False"
| "py_le (Fin a) (Fin b) = (a \<le> b)"

fun py_gt :: "pyfloat \<Rightarrow> pyfloat \<Rightarrow> bool" where
  "py_gt NaN _ = False"
| "py_gt _ NaN = False"
| "py_gt NegInf _ = False"
| "py_gt _ PosInf = False"
| "py_gt PosInf _ = True"
| "py_gt _ NegInf = True"
| "py_gt (Fin a) (Fin b) = (b < a)"

fun py_abs :: "pyfloat \<Rightarrow> pyfloat" where
  "py_abs (Fin a) = Fin \<bar>a\<bar>"
| "py_abs PosInf = PosInf"
| "py_abs NegInf = PosInf"
| "py_abs NaN = NaN"

fun py_sub :: "pyfloat \<Rightarrow> pyfloat \<Rightarrow> pyfloat" where
  "py_sub NaN _ = NaN"
| "py_sub _ NaN = NaN"
| "py_sub (Fin a) (Fin b) = round64 (a - b)"
| "py_sub PosInf PosInf = NaN"
| "py_sub NegInf NegInf = NaN"
| "py_sub PosInf _ = PosInf"
| "py_sub NegInf _ = NegInf"
| "py_sub (Fin a) PosInf = NegInf"
| "py_sub (Fin a) NegInf = PosInf"

text \<open>The infinity that a product or quotient with one infinite operand yields.\<close>

definition signed_inf :: "bool \<Rightarrow> pyfloat" where
  "signed_inf positive = (if positive then PosInf else NegInf)"

fun py_mul :: "pyfloat \<Rightarrow> pyfloat \<Rightarrow> pyfloat" where
  "py_mul NaN _ = NaN"
| "py_mul _ NaN = NaN"
| "py_mul (Fin a) (Fin b) = round64 (a * b)"
| "py_mul (Fin a) PosInf = (if a = 0 then NaN else signed_inf (0 < a))"
| "py_mul (Fin a) NegInf = (if a = 0 then NaN else signed_inf (a < 0))"
| "py_mul PosInf (Fin b) = (if b = 0 then NaN else signed_inf (0 < b))"
| "py_mul NegInf (Fin b) = (if b = 0 then NaN else signed_inf (b < 0))"
| "py_mul PosInf PosInf = PosInf"
| "py_mul NegInf NegInf = PosInf"
| "py_mul PosInf NegInf = NegInf"
| "py_mul NegInf PosInf = NegInf"

text \<open>\<^verbatim>\<open>a / b\<close> on floats: a zero divisor raises, everything else follows IEEE 754.\<close>

fun py_truediv :: "pyfloat \<Rightarrow> pyfloat \<Rightarrow> py_error + pyfloat" where
  "py_truediv a (Fin b) =
     (if b = 0 then Inl (ZeroDivisionError ''float division by zero'')
      else case a of
             Fin x \<Rightarrow> Inr (round64 (x / b))
           | PosInf \<Rightarrow> Inr (signed_inf (0 < b))
           | NegInf \<Rightarrow> Inr (signed_inf (b < 0))
           | NaN \<Rightarrow> Inr NaN)"
| "py_truediv NaN _ = Inr NaN"
| "py_truediv _ NaN = Inr NaN"
| "py_truediv (Fin x) _ = Inr (Fin 0)"
| "py_truediv _ _ = Inr NaN"

text \<open>The conversion of an \<^verbatim>\<open>int\<close> operand to a float, as \<^verbatim>\<open>int * float\<close> does it.\<close>

definition float_of_int :: "int \<Rightarrow> py_error + pyfloat" where
  "float_of_int n =
     (case round64 (of_int n) of
        Fin q \<Rightarrow> Inr (Fin q)
      | _ \<Rightarrow> Inl (OverflowError ''int too large to convert to float''))"

text \<open>\<^verbatim>\<open>int(x)\<close> of a float: truncation toward zero; infinities and NaN raise.\<close>

fun py_int :: "pyfloat \<Rightarrow> py_error + int" where
  "py_int (Fin a) = Inr (if 0 \<le> a then \<lfloor>a\<rfloor> else \<lceil>a\<rceil>)"
| "py_int NaN = Inl (ValueError ''cannot convert float NaN to integer'')"
| "py_int _ = Inl (OverflowError ''cannot convert float infinity to integer'')"

text \<open>The expression \<^verbatim>\<open>int(n * x)\<close> for an \<^verbatim>\<open>int\<close> \<open>n\<close> and a float \<open>x\<close>.\<close>

definition int_of_product :: "int \<Rightarrow> pyfloat \<Rightarrow> py_error + int" where
  "int_of_product n x =
     (case float_of_int n of
        Inl err \<Rightarrow> Inl err
      | Inr f \<Rightarrow> py_int (py_mul f x))"

section \<open>The data model\<close>

definition FEE_BASE :: int where
  "FEE_BASE = 1000000"

record CurveSnapshot =
  concentration :: int
  mult_x :: int
  mult_y :: int
  spread :: int
  target_x :: int
  target_y :: int

text \<open>
  The plan's fields carry the prefix \<open>plan_\<close>: the source gives them the names of the
  snapshot's fields, which a second record cannot reuse unqualified.
\<close>

record CurveUpdatePlan =
  plan_mult_x :: int
  plan_mult_y :: int
  plan_concentration :: int
  plan_spread :: "int option"
  plan_target_x :: "int option"
  plan_target_y :: "int option"

record SignalEngine =
  price_tolerance :: pyfloat
  volatility_threshold :: pyfloat
  concentration_widen_factor :: pyfloat
  spread_step :: int
  concentration_bounds :: "int \<times> int"

text \<open>The engine that \<^verbatim>\<open>SignalEngine()\<close> constructs from the default arguments.\<close>

definition default_engine :: SignalEngine where
  "default_engine =
     \<lparr>price_tolerance = round64 (1 / 1000),
      volatility_threshold = round64 (2 / 100),
      concentration_widen_factor = Fin (1 / 2),
      spread_step = 500,
      concentration_bounds = (1000000, 200000000)\<rparr>"

section \<open>The signal engine\<close>

definition price_ratio_of :: "pyfloat \<Rightarrow> pyfloat \<Rightarrow> py_error + pyfloat" where
  "price_ratio_of predicted_price current_price = py_truediv predicted_price current_price"

definition deviation_of :: "pyfloat \<Rightarrow> pyfloat" where
  "deviation_of price_ratio = py_abs (py_sub price_ratio (Fin 1))"

text \<open>Lines 73-74: the multiplier of the y side, rescaled when the deviation is large.\<close>

definition adjust_mult_y :: "SignalEngine \<Rightarrow> CurveSnapshot \<Rightarrow> pyfloat \<Rightarrow> py_error + int" where
  "adjust_mult_y self snapshot price_ratio =
     (if py_gt (deviation_of price_ratio) (price_tolerance self)
      then (case int_of_product (mult_y snapshot) price_ratio of
              Inl err \<Rightarrow> Inl err
            | Inr v \<Rightarrow> Inr (max 1 v))
      else Inr (mult_y snapshot))"

text \<open>Lines 76-86: the concentration and the optional new spread.\<close>

definition volatility_branch ::
  "SignalEngine \<Rightarrow> CurveSnapshot \<Rightarrow> pyfloat \<Rightarrow> py_error + (int \<times> int option)" where
  "volatility_branch self snapshot realized_volatility =
     (if py_gt realized_volatility (volatility_threshold self)
      then (case int_of_product (concentration snapshot) (concentration_widen_factor self) of
              Inl err \<Rightarrow> Inl err
            | Inr c \<Rightarrow>
                (let (lower, upper) = concentration_bounds self
                 in Inr (max lower (min c upper),
                         Some (min FEE_BASE (spread snapshot + spread_step self)))))
      else Inr (max (fst (concentration_bounds self))
                    (min (concentration snapshot) (snd (concentration_bounds self))),
                None))"

text \<open>Lines 88-91: the candidate target of the y side.\<close>

definition adjust_target_y :: "SignalEngine \<Rightarrow> CurveSnapshot \<Rightarrow> pyfloat \<Rightarrow> py_error + int" where
  "adjust_target_y self snapshot price_ratio =
     (if py_gt (deviation_of price_ratio) (price_tolerance self) \<and> 0 < target_y snapshot
      then int_of_product (target_y snapshot) price_ratio
      else Inr (target_y snapshot))"

text \<open>Lines 93-106: the rebalance pair, present only when a target changed, and the plan.\<close>

definition assemble ::
  "CurveSnapshot \<Rightarrow> int \<Rightarrow> int \<Rightarrow> int option \<Rightarrow> int \<Rightarrow> int \<Rightarrow> CurveUpdatePlan" where
  "assemble snapshot new_mult_y new_concentration new_spread new_target_x new_target_y =
     (let changed = (new_target_x \<noteq> target_x snapshot \<or> new_target_y \<noteq> target_y snapshot)
      in \<lparr>plan_mult_x = mult_x snapshot,
          plan_mult_y = new_mult_y,
          plan_concentration = new_concentration,
          plan_spread = new_spread,
          plan_target_x = (if changed then Some new_target_x else None),
          plan_target_y = (if changed then Some new_target_y else None)\<rparr>)"

text \<open>
  \<^verbatim>\<open>SignalEngine.build_plan\<close>. Every statement that can raise is a \<open>case\<close> whose
  \<open>Inl\<close> branch leaves with the error, in the order in which the source runs them.
\<close>

definition build_plan ::
  "SignalEngine \<Rightarrow> CurveSnapshot \<Rightarrow> pyfloat \<Rightarrow> pyfloat \<Rightarrow> pyfloat \<Rightarrow> py_error + CurveUpdatePlan" where
  "build_plan self snapshot predicted_price current_price realized_volatility =
     (if py_le current_price (Fin 0) then Inl (ValueError ''Current price must be positive'')
      else
        (case price_ratio_of predicted_price current_price of
           Inl err \<Rightarrow> Inl err
         | Inr price_ratio \<Rightarrow>
        (case adjust_mult_y self snapshot price_ratio of
           Inl err \<Rightarrow> Inl err
         | Inr new_mult_y \<Rightarrow>
        (case volatility_branch self snapshot realized_volatility of
           Inl err \<Rightarrow> Inl err
         | Inr (new_concentration, new_spread) \<Rightarrow>
        (case adjust_target_y self snapshot price_ratio of
           Inl err \<Rightarrow> Inl err
         | Inr new_target_y \<Rightarrow>
             Inr (assemble snapshot new_mult_y new_concentration new_spread
                    (target_x snapshot) new_target_y))))))"

section \<open>Rounding to nearest\<close>

text \<open>
  The specification words the rescaled values with \<^verbatim>\<open>round(n * x)\<close> where the source has
  \<^verbatim>\<open>int(n * x)\<close>. This is Python's \<^verbatim>\<open>round\<close> of a float, to the nearest integer with
  ties to even, kept apart from the source's \<open>int_of_product\<close> to compare the two.
\<close>

fun py_round :: "pyfloat \<Rightarrow> py_error + int" where
  "py_round (Fin a) = Inr (round_half_even a)"
| "py_round NaN = Inl (ValueError ''cannot convert float NaN to integer'')"
| "py_round _ = Inl (OverflowError ''cannot convert float infinity to integer'')"

definition round_of_product :: "int \<Rightarrow> pyfloat \<Rightarrow> py_error + int" where
  "round_of_product n x =
     (case float_of_int n of
        Inl err \<Rightarrow> Inl err
      | Inr f \<Rightarrow> py_round (py_mul f x))"

section \<open>Example inputs\<close>

text \<open>A snapshot with small multipliers and targets, on which the arithmetic is visible.\<close>

definition small_snapshot :: CurveSnapshot where
  "small_snapshot =
     \<lparr>concentration = 1000000, mult_x = 7, mult_y = 7, spread = 30,
      target_x = 100, target_y = 7\<rparr>"

text \<open>The same pool with an empty y target, and with the spread at its cap.\<close>

definition untargeted_snapshot :: CurveSnapshot where
  "untargeted_snapshot = small_snapshot\<lparr>target_y := 0\<rparr>"

definition capped_snapshot :: CurveSnapshot where
  "capped_snapshot = small_snapshot\<lparr>spread := 1000000\<rparr>"

section \<open>The shape of a call\<close>

text \<open>
  A call returns a plan exactly when the price check passes and each of the four later
  stages returns; the plan is then assembled from their results.
\<close>

lemma build_plan_InrD:
  assumes "build_plan self snapshot predicted_price current_price realized_volatility = Inr plan"
  obtains price_ratio new_mult_y new_concentration new_spread new_target_y where
    "\<not> py_le current_price (Fin 0)"
    "price_ratio_of predicted_price current_price = Inr price_ratio"
    "adjust_mult_y self snapshot price_ratio = Inr new_mult_y"
    "volatility_branch self snapshot realized_volatility = Inr (new_concentration, new_spread)"
    "adjust_target_y self snapshot price_ratio = Inr new_target_y"
    "plan = assemble snapshot new_mult_y new_concentration new_spread (target_x snapshot) new_target_y"
  using assms unfolding build_plan_def
  by (auto split: if_splits sum.splits prod.splits)

text \<open>
  The division by a price that passed the check never raises, so the only statements
  that can raise after the check are the conversions \<^verbatim>\<open>int(n * x)\<close>.
\<close>

lemma price_ratio_total:
  "\<not> py_le current_price (Fin 0) \<Longrightarrow>
     \<exists>price_ratio. price_ratio_of predicted_price current_price = Inr price_ratio"
  unfolding price_ratio_of_def
  by (cases current_price; cases predicted_price) auto

lemma int_of_product_errors:
  "int_of_product n x = Inl err \<Longrightarrow>
     err = OverflowError ''int too large to convert to float'' \<or>
     err = OverflowError ''cannot convert float infinity to integer'' \<or>
     err = ValueError ''cannot convert float NaN to integer''"
  unfolding int_of_product_def float_of_int_def
  by (cases "round64 (of_int n)"; cases "py_mul (round64 (of_int n)) x") (auto split: pyfloat.splits)

lemma int_of_product_truncates:
  assumes "int_of_product n x = Inr v"
  shows "\<exists>f a. float_of_int n = Inr f \<and> py_mul f x = Fin a \<and> v = (if 0 \<le> a then \<lfloor>a\<rfloor> else \<lceil>a\<rceil>)"
proof -
  from assms obtain f where f: "float_of_int n = Inr f" and v: "py_int (py_mul f x) = Inr v"
    by (auto simp: int_of_product_def split: sum.splits)
  from v obtain a where "py_mul f x = Fin a" and "v = (if 0 \<le> a then \<lfloor>a\<rfloor> else \<lceil>a\<rceil>)"
    by (cases "py_mul f x") auto
  with f show ?thesis by blast
qed

lemma adjust_mult_y_returns:
  "(\<exists>v. adjust_mult_y self snapshot r = Inr v) \<longleftrightarrow>
     (py_gt (deviation_of r) (price_tolerance self) \<longrightarrow>
        (\<exists>v. int_of_product (mult_y snapshot) r = Inr v))"
  by (cases "int_of_product (mult_y snapshot) r") (simp_all add: adjust_mult_y_def)

lemma volatility_branch_returns:
  "(\<exists>v. volatility_branch self snapshot rv = Inr v) \<longleftrightarrow>
     (py_gt rv (volatility_threshold self) \<longrightarrow>
        (\<exists>v. int_of_product (concentration snapshot) (concentration_widen_factor self) = Inr v))"
  by (cases "int_of_product (concentration snapshot) (concentration_widen_factor self)")
     (simp_all add: volatility_branch_def split: prod.splits)

lemma adjust_target_y_returns:
  "(\<exists>v. adjust_target_y self snapshot r = Inr v) \<longleftrightarrow>
     (py_gt (deviation_of r) (price_tolerance self) \<and> 0 < target_y snapshot \<longrightarrow>
        (\<exists>v. int_of_product (target_y snapshot) r = Inr v))"
  by (auto simp: adjust_target_y_def)

lemma build_plan_returns:
  assumes "\<not> py_le current_price (Fin 0)"
    and "price_ratio_of predicted_price current_price = Inr r"
  shows "(\<exists>plan. build_plan self snapshot predicted_price current_price realized_volatility = Inr plan) \<longleftrightarrow>
     (\<exists>v. adjust_mult_y self snapshot r = Inr v) \<and>
     (\<exists>v. volatility_branch self snapshot realized_volatility = Inr v) \<and>
     (\<exists>v. adjust_target_y self snapshot r = Inr v)"
  using assms by (auto simp: build_plan_def split: sum.splits prod.splits)

lemma build_plan_error_source:
  assumes "\<not> py_le current_price (Fin 0)"
    and "build_plan self snapshot predicted_price current_price realized_volatility = Inl err"
  shows "\<exists>n x. int_of_product n x = Inl err"
proof -
  from price_ratio_total [OF assms(1)] obtain r where
    "price_ratio_of predicted_price current_price = Inr r" by blast
  with assms show ?thesis
    by (auto simp: build_plan_def adjust_mult_y_def volatility_branch_def adjust_target_y_def
             split: sum.splits prod.splits if_splits)
qed

text \<open>
  After the check, the call raises exactly the error of the first conversion that fails, in
  the order in which the source runs them: \<open>mult_y\<close>, \<open>concentration\<close>, \<open>target_y\<close>.
\<close>

lemma build_plan_first_error:
  assumes "\<not> py_le current_price (Fin 0)"
    and "price_ratio_of predicted_price current_price = Inr r"
  shows "build_plan self snapshot predicted_price current_price realized_volatility = Inl err \<longleftrightarrow>
     py_gt (deviation_of r) (price_tolerance self) \<and>
       int_of_product (mult_y snapshot) r = Inl err \<or>
     (py_gt (deviation_of r) (price_tolerance self) \<longrightarrow>
        (\<exists>v. int_of_product (mult_y snapshot) r = Inr v)) \<and>
       py_gt realized_volatility (volatility_threshold self) \<and>
       int_of_product (concentration snapshot) (concentration_widen_factor self) = Inl err \<or>
     (py_gt (deviation_of r) (price_tolerance self) \<and> 0 < target_y snapshot \<and>
        (\<exists>v. int_of_product (mult_y snapshot) r = Inr v)) \<and>
       (py_gt realized_volatility (volatility_threshold self) \<longrightarrow>
          (\<exists>v. int_of_product (concentration snapshot) (concentration_widen_factor self) = Inr v)) \<and>
       int_of_product (target_y snapshot) r = Inl err"
  by (cases "int_of_product (mult_y snapshot) r";
      cases "int_of_product (concentration snapshot) (concentration_widen_factor self)";
      cases "int_of_product (target_y snapshot) r")
     (auto simp: build_plan_def adjust_mult_y_def volatility_branch_def adjust_target_y_def assms
           split: prod.splits)

section \<open>Evaluating the float model\<close>

text \<open>
  Concrete roundings, proved by unfolding \<open>round64\<close> in stages: the exponent, the unit in
  the last place, the rounded mantissa.
\<close>

lemma floor_rat_numeral [simp]: "\<lfloor>numeral a / numeral b :: rat\<rfloor> = numeral a div numeral b"
  using floor_divide_of_int_eq [of "numeral a" "numeral b", where ?'a = rat] by simp

lemma round64_quarter: "round64 (1 / 4) = Fin (1 / 4)"
  apply (simp only: round64_def Let_def)
  apply (simp add: floor_log2_def compute_bitlen)
  apply (simp add: pow2_def)
  apply (simp add: round_half_even_def Let_def)
  done

lemma round64_minus_three_quarters: "round64 (- (3 / 4)) = Fin (- (3 / 4))"
  apply (simp only: round64_def Let_def)
  apply (simp add: floor_log2_def compute_bitlen)
  apply (simp add: pow2_def)
  apply (simp add: round_half_even_def Let_def)
  done

lemma round64_seven: "round64 7 = Fin 7"
  apply (simp only: round64_def Let_def)
  apply (simp add: floor_log2_def compute_bitlen)
  apply (simp add: pow2_def)
  apply (simp add: round_half_even_def Let_def)
  done

lemma round64_seven_quarters: "round64 (7 / 4) = Fin (7 / 4)"
  apply (simp only: round64_def Let_def)
  apply (simp add: floor_log2_def compute_bitlen)
  apply (simp add: pow2_def)
  apply (simp add: round_half_even_def Let_def)
  done

lemma round64_million: "round64 1000000 = Fin 1000000"
  apply (simp only: round64_def Let_def)
  apply (simp add: floor_log2_def compute_bitlen)
  apply (simp add: pow2_def)
  apply (simp add: round_half_even_def Let_def)
  done

lemma round64_half_million: "round64 500000 = Fin 500000"
  apply (simp only: round64_def Let_def)
  apply (simp add: floor_log2_def compute_bitlen)
  apply (simp add: pow2_def)
  apply (simp add: round_half_even_def Let_def)
  done

lemma round64_thousandth: "round64 (1 / 1000) = Fin (1152921504606847 / 1152921504606846976)"
  apply (simp only: round64_def Let_def)
  apply (simp add: floor_log2_def compute_bitlen)
  apply (simp add: pow2_def)
  apply (simp add: round_half_even_def Let_def)
  done

lemma round64_fiftieth: "round64 (1 / 50) = Fin (5764607523034235 / 288230376151711744)"
  apply (simp only: round64_def Let_def)
  apply (simp add: floor_log2_def compute_bitlen)
  apply (simp add: pow2_def)
  apply (simp add: round_half_even_def Let_def)
  done

text \<open>
  Powers of two from \<open>2 ^ 52\<close> on are integers with a one-bit mantissa: they are binary64
  numbers up to \<open>2 ^ 1023\<close> and overflow from \<open>2 ^ 1024\<close> on.
\<close>

lemma floor_log2_power: "floor_log2 (2 ^ n) = int n"
proof -
  have "\<lfloor>(2::rat) ^ n\<rfloor> = 2 ^ n"
    by (metis floor_of_int of_int_numeral of_int_power)
  moreover have "bitlen (2 ^ n) = int n + 1"
    using bitlen_pow2 [of 1 n] by (simp add: compute_bitlen)
  ultimately show ?thesis by (simp add: floor_log2_def)
qed

lemma round64_power:
  assumes "52 \<le> n"
  shows "round64 (2 ^ n) = (if 1024 \<le> n then PosInf else Fin (2 ^ n))"
proof -
  have ulp: "pow2 (int n - 52) = 2 ^ (n - 52)"
    using assms by (simp add: pow2_def nat_diff_distrib)
  have "(2::rat) ^ n = 2 ^ (n - 52 + 52)"
    using assms by simp
  also have "\<dots> = 2 ^ (n - 52) * 2 ^ 52"
    by (rule power_add)
  finally have split: "(2::rat) ^ n = 2 ^ (n - 52) * 2 ^ 52" .
  then have q: "(2::rat) ^ n / 2 ^ (n - 52) = of_int (2 ^ 52)" by simp
  have rnd: "round_half_even (of_int k) = k" for k
    by (simp add: round_half_even_def)
  have r: "of_int (round_half_even ((2::rat) ^ n / 2 ^ (n - 52))) * 2 ^ (n - 52) = (2::rat) ^ n"
    unfolding q rnd using split by simp
  have "pow2 (int m) \<le> (2::rat) ^ n \<longleftrightarrow> m \<le> n" for m
    by (simp add: pow2_def)
  from this [of 1024] have cmp: "pow2 1024 \<le> (2::rat) ^ n \<longleftrightarrow> 1024 \<le> n"
    by simp
  have e: "max (int n) (- 1022) = int n" by simp
  have abs: "\<bar>(2::rat) ^ n\<bar> = 2 ^ n" by simp
  have nz: "(2::rat) ^ n \<noteq> 0" "0 < (2::rat) ^ n" by simp_all
  show ?thesis
    unfolding round64_def Let_def abs floor_log2_power e ulp r cmp
    using nz by (simp only: if_False if_True)
qed

text \<open>
  The default thresholds are the binary64 numbers nearest to 0.001 and 0.02.
\<close>

lemma default_price_tolerance:
  "price_tolerance default_engine = Fin (1152921504606847 / 1152921504606846976)"
  by (simp add: default_engine_def round64_thousandth)

lemma default_volatility_threshold:
  "volatility_threshold default_engine = Fin (5764607523034235 / 288230376151711744)"
  by (simp add: default_engine_def round64_fiftieth)

lemma default_engine_fields:
  "concentration_widen_factor default_engine = Fin (1 / 2)" "spread_step default_engine = 500"
  "concentration_bounds default_engine = (1000000, 200000000)"
  by (simp_all add: default_engine_def)

lemma small_snapshot_fields:
  "concentration small_snapshot = 1000000" "mult_y small_snapshot = 7"
  "spread small_snapshot = 30" "target_x small_snapshot = 100" "target_y small_snapshot = 7"
  by (simp_all add: small_snapshot_def)

text \<open>
  A price that falls from 4 to 1 has ratio 0.25 and deviation 0.75; 7 times 0.25 is 1.75,
  which \<^verbatim>\<open>int\<close> truncates to 1 and \<^verbatim>\<open>round\<close> takes to 2.
\<close>

lemma ratio_quarter: "price_ratio_of (Fin 1) (Fin 4) = Inr (Fin (1 / 4))"
  by (simp add: price_ratio_of_def round64_quarter)

lemma deviation_quarter: "deviation_of (Fin (1 / 4)) = Fin (3 / 4)"
  by (simp add: deviation_of_def round64_minus_three_quarters)

lemma truncated_seven_quarters: "int_of_product 7 (Fin (1 / 4)) = Inr 1"
  by (simp add: int_of_product_def float_of_int_def round64_seven round64_seven_quarters)

lemma rounded_seven_quarters: "round_of_product 7 (Fin (1 / 4)) = Inr 2"
  by (simp add: round_of_product_def float_of_int_def round64_seven round64_seven_quarters
      round_half_even_def Let_def)

lemma truncated_half_million: "int_of_product 1000000 (Fin (1 / 2)) = Inr 500000"
  by (simp add: int_of_product_def float_of_int_def round64_million round64_half_million)

text \<open>
  A predicted price of \<open>2 ^ 1023\<close> against a current price of 0.25: the ratio overflows.
\<close>

lemma overflowing_ratio: "price_ratio_of (Fin (2 ^ 1023)) (Fin (1 / 4)) = Inr PosInf"
proof -
  have "(2::rat) ^ 1023 / (1 / 4) = 2 ^ 1023 * 2 ^ 2" by (simp only: divide_divide_eq_right power2_eq_square)
  also have "\<dots> = 2 ^ (1023 + 2)" by (rule power_add [symmetric])
  finally have "round64 (2 ^ 1023 / (1 / 4)) = PosInf"
    using round64_power [of "1023 + 2"] by simp
  moreover have "(1::rat) / 4 \<noteq> 0" by simp
  ultimately show ?thesis
    by (simp only: price_ratio_of_def py_truediv.simps if_False pyfloat.case)
qed

section \<open>Example calls\<close>

text \<open>
  The default engine on the small snapshots, with volatility 1/16 above the threshold.
\<close>

lemmas small_call =
  build_plan_def adjust_mult_y_def volatility_branch_def adjust_target_y_def assemble_def
  default_price_tolerance default_volatility_threshold ratio_quarter deviation_quarter
  truncated_seven_quarters truncated_half_million FEE_BASE_def Let_def
  default_engine_def round64_thousandth round64_fiftieth

lemma small_snapshot_plan:
  "build_plan default_engine small_snapshot (Fin 1) (Fin 4) (Fin (1 / 16)) =
     Inr \<lparr>plan_mult_x = 7, plan_mult_y = 1, plan_concentration = 1000000,
          plan_spread = Some 530, plan_target_x = Some 100, plan_target_y = Some 1\<rparr>"
  by (simp add: small_call small_snapshot_def)

lemma untargeted_snapshot_plan:
  "build_plan default_engine untargeted_snapshot (Fin 1) (Fin 4) (Fin (1 / 16)) =
     Inr \<lparr>plan_mult_x = 7, plan_mult_y = 1, plan_concentration = 1000000,
          plan_spread = Some 530, plan_target_x = None, plan_target_y = None\<rparr>"
  by (simp add: small_call untargeted_snapshot_def small_snapshot_def)

lemma capped_snapshot_plan:
  "build_plan default_engine capped_snapshot (Fin 1) (Fin 4) (Fin (1 / 16)) =
     Inr \<lparr>plan_mult_x = 7, plan_mult_y = 1, plan_concentration = 1000000,
          plan_spread = Some 1000000, plan_target_x = Some 100, plan_target_y = Some 1\<rparr>"
  by (simp add: small_call capped_snapshot_def small_snapshot_def)

lemma small_snapshot_overflow:
  "build_plan default_engine small_snapshot (Fin (2 ^ 1023)) (Fin (1 / 4)) (Fin 0) =
     Inl (OverflowError ''cannot convert float infinity to integer'')"
proof -
  have positive: "py_le (Fin (1 / 4)) (Fin 0) = False" by simp
  have deviation: "deviation_of PosInf = PosInf" by (simp add: deviation_of_def)
  have product: "int_of_product 7 PosInf =
      Inl (OverflowError ''cannot convert float infinity to integer'')"
    by (simp add: int_of_product_def float_of_int_def round64_seven signed_inf_def)
  show ?thesis
    apply (simp only: build_plan_def positive if_False overflowing_ratio sum.case)
    apply (simp add: adjust_mult_y_def deviation default_price_tolerance small_snapshot_def product)
    done
qed

section \<open>Properties of the plan\<close>

text \<open>
  Claim C1, amended. \<^verbatim>\<open>build_plan\<close> raises the error ``Current price must be positive''
  if and only if \<^verbatim>\<open>current_price <= 0\<close>, and then returns no plan. A price that passes the
  check does not make the call safe: the division never raises, but the call returns a plan
  if and only if every conversion \<^verbatim>\<open>int(n * x)\<close> that it executes succeeds (the one of
  \<open>mult_y\<close> and of a positive \<open>target_y\<close> when the deviation exceeds the tolerance, the
  one of \<open>concentration\<close> when the volatility exceeds the threshold). Otherwise it raises
  exactly the error of the first of these conversions that fails, in the order \<open>mult_y\<close>,
  \<open>concentration\<close>, \<open>target_y\<close>, which is one of the two \<^verbatim>\<open>OverflowError\<close>s and the
  \<^verbatim>\<open>ValueError\<close> that \<^verbatim>\<open>int(n * x)\<close> can raise.
\<close>

theorem build_plan_raises:
  "(build_plan self snapshot predicted_price current_price realized_volatility =
      Inl (ValueError ''Current price must be positive'') \<longleftrightarrow> py_le current_price (Fin 0)) \<and>
   (\<not> py_le current_price (Fin 0) \<longrightarrow>
      (\<exists>price_ratio. price_ratio_of predicted_price current_price = Inr price_ratio \<and>
         ((\<exists>plan. build_plan self snapshot predicted_price current_price realized_volatility = Inr plan) \<longleftrightarrow>
            (py_gt (deviation_of price_ratio) (price_tolerance self) \<longrightarrow>
               (\<exists>v. int_of_product (mult_y snapshot) price_ratio = Inr v)) \<and>
            (py_gt realized_volatility (volatility_threshold self) \<longrightarrow>
               (\<exists>v. int_of_product (concentration snapshot) (concentration_widen_factor self) = Inr v)) \<and>
            (py_gt (deviation_of price_ratio) (price_tolerance self) \<and> 0 < target_y snapshot \<longrightarrow>
               (\<exists>v. int_of_product (target_y snapshot) price_ratio = Inr v))) \<and>
         (\<forall>err. build_plan self snapshot predicted_price current_price realized_volatility = Inl err \<longleftrightarrow>
            py_gt (deviation_of price_ratio) (price_tolerance self) \<and>
              int_of_product (mult_y snapshot) price_ratio = Inl err \<or>
            (py_gt (deviation_of price_ratio) (price_tolerance self) \<longrightarrow>
               (\<exists>v. int_of_product (mult_y snapshot) price_ratio = Inr v)) \<and>
              py_gt realized_volatility (volatility_threshold self) \<and>
              int_of_product (concentration snapshot) (concentration_widen_factor self) = Inl err \<or>
            (py_gt (deviation_of price_ratio) (price_tolerance self) \<and> 0 < target_y snapshot \<and>
               (\<exists>v. int_of_product (mult_y snapshot) price_ratio = Inr v)) \<and>
              (py_gt realized_volatility (volatility_threshold self) \<longrightarrow>
                 (\<exists>v. int_of_product (concentration snapshot) (concentration_widen_factor self) = Inr v)) \<and>
              int_of_product (target_y snapshot) price_ratio = Inl err)) \<and>
      (\<forall>err. build_plan self snapshot predicted_price current_price realized_volatility = Inl err \<longrightarrow>
         err = OverflowError ''int too large to convert to float'' \<or>
         err = OverflowError ''cannot convert float infinity to integer'' \<or>
         err = ValueError ''cannot convert float NaN to integer''))"
proof (cases "py_le current_price (Fin 0)")
  case True
  then show ?thesis by (simp add: build_plan_def)
next
  case False
  from price_ratio_total [OF False] obtain r where
    r: "price_ratio_of predicted_price current_price = Inr r" by blast
  have errs: "err = OverflowError ''int too large to convert to float'' \<or>
         err = OverflowError ''cannot convert float infinity to integer'' \<or>
         err = ValueError ''cannot convert float NaN to integer''"
    if "build_plan self snapshot predicted_price current_price realized_volatility = Inl err" for err
    using build_plan_error_source [OF False that] int_of_product_errors by blast
  have "build_plan self snapshot predicted_price current_price realized_volatility \<noteq>
      Inl (ValueError ''Current price must be positive'')"
    using errs by fastforce
  moreover have "(\<exists>plan. build_plan self snapshot predicted_price current_price realized_volatility = Inr plan) \<longleftrightarrow>
            (py_gt (deviation_of r) (price_tolerance self) \<longrightarrow>
               (\<exists>v. int_of_product (mult_y snapshot) r = Inr v)) \<and>
            (py_gt realized_volatility (volatility_threshold self) \<longrightarrow>
               (\<exists>v. int_of_product (concentration snapshot) (concentration_widen_factor self) = Inr v)) \<and>
            (py_gt (deviation_of r) (price_tolerance self) \<and> 0 < target_y snapshot \<longrightarrow>
               (\<exists>v. int_of_product (target_y snapshot) r = Inr v))"
    unfolding build_plan_returns [OF False r] adjust_mult_y_returns volatility_branch_returns
      adjust_target_y_returns ..
  moreover note build_plan_first_error [OF False r]
  ultimately show ?thesis using False r errs by simp
qed

text \<open>
  The check passes at price 4 and a plan is returned; it fails at price 0.
\<close>

theorem build_plan_raises_witness:
  "\<not> py_le (Fin 4) (Fin 0) \<and>
   (\<exists>plan. build_plan default_engine small_snapshot (Fin 1) (Fin 4) (Fin (1 / 16)) = Inr plan) \<and>
   py_le (Fin 0) (Fin 0) \<and>
   build_plan default_engine small_snapshot (Fin 1) (Fin 0) (Fin (1 / 16)) =
     Inl (ValueError ''Current price must be positive'')"
  using build_plan_raises [of default_engine small_snapshot "Fin 1" "Fin 4" "Fin (1 / 16)"]
    build_plan_raises [of default_engine small_snapshot "Fin 1" "Fin 0" "Fin (1 / 16)"]
  by (simp add: small_snapshot_plan)

text \<open>
  A positive current price with which the call raises: both prices are finite binary64
  numbers, their ratio overflows to infinity, and \<^verbatim>\<open>int(7 * inf)\<close> raises.
\<close>

theorem positive_price_raises_counterexample:
  "py_gt (Fin (1 / 4)) (Fin 0) \<and>
   round64 (2 ^ 1023) = Fin (2 ^ 1023) \<and>
   build_plan default_engine small_snapshot (Fin (2 ^ 1023)) (Fin (1 / 4)) (Fin 0) =
     Inl (OverflowError ''cannot convert float infinity to integer'')"
proof -
  have "py_gt (Fin (1 / 4)) (Fin 0)" by simp
  moreover have "round64 (2 ^ 1023) = Fin (2 ^ 1023)"
    using round64_power [of 1023] by simp
  ultimately show ?thesis
    using small_snapshot_overflow by (intro conjI)
qed

text \<open>
  Claim C2, amended. When the deviation exceeds the tolerance, the plan's \<open>mult_y\<close> is
  \<open>max 1 v\<close> where \<open>v\<close> is the float product of \<open>mult_y\<close> and the price ratio truncated
  toward zero (\<^verbatim>\<open>int\<close>, not \<^verbatim>\<open>round\<close>); otherwise it is the snapshot's \<open>mult_y\<close>.
\<close>

theorem mult_y_truncated:
  "build_plan self snapshot predicted_price current_price realized_volatility = Inr plan \<Longrightarrow>
   price_ratio_of predicted_price current_price = Inr price_ratio \<Longrightarrow>
     (if py_gt (deviation_of price_ratio) (price_tolerance self)
      then \<exists>f a. float_of_int (mult_y snapshot) = Inr f \<and> py_mul f price_ratio = Fin a \<and>
             int_of_product (mult_y snapshot) price_ratio = Inr (if 0 \<le> a then \<lfloor>a\<rfloor> else \<lceil>a\<rceil>) \<and>
             plan_mult_y plan = max 1 (if 0 \<le> a then \<lfloor>a\<rfloor> else \<lceil>a\<rceil>)
      else plan_mult_y plan = mult_y snapshot)"
  apply (erule build_plan_InrD)
  apply (auto simp: assemble_def adjust_mult_y_def Let_def split: if_splits sum.splits
              dest!: int_of_product_truncates)
  done

theorem mult_y_truncated_witness:
  "py_gt (deviation_of (Fin (1 / 4))) (price_tolerance default_engine) \<and>
   (\<exists>f a. float_of_int (mult_y small_snapshot) = Inr f \<and> py_mul f (Fin (1 / 4)) = Fin a \<and>
      int_of_product (mult_y small_snapshot) (Fin (1 / 4)) =
        Inr (if 0 \<le> a then \<lfloor>a\<rfloor> else \<lceil>a\<rceil>) \<and>
      plan_mult_y 
        \<lparr>plan_mult_x = 7, plan_mult_y = 1, plan_concentration = 1000000,
          plan_spread = Some 530, plan_target_x = Some 100, plan_target_y = Some 1\<rparr> = max 1 (if 0 \<le> a then \<lfloor>a\<rfloor> else \<lceil>a\<rceil>))"
  using mult_y_truncated [OF small_snapshot_plan ratio_quarter]
  by (simp add: deviation_quarter default_price_tolerance)

text \<open>
  With \<open>mult_y = 7\<close> and ratio 0.25 the plan holds 1, where rounding 1.75 gives 2.
\<close>

theorem mult_y_rounding_counterexample:
  "build_plan default_engine small_snapshot (Fin 1) (Fin 4) (Fin (1 / 16)) = Inr 
        \<lparr>plan_mult_x = 7, plan_mult_y = 1, plan_concentration = 1000000,
          plan_spread = Some 530, plan_target_x = Some 100, plan_target_y = Some 1\<rparr> \<and>
   price_ratio_of (Fin 1) (Fin 4) = Inr (Fin (1 / 4)) \<and>
   py_gt (deviation_of (Fin (1 / 4))) (price_tolerance default_engine) \<and>
   round_of_product (mult_y small_snapshot) (Fin (1 / 4)) = Inr 2 \<and>
   plan_mult_y 
        \<lparr>plan_mult_x = 7, plan_mult_y = 1, plan_concentration = 1000000,
          plan_spread = Some 530, plan_target_x = Some 100, plan_target_y = Some 1\<rparr> \<noteq> max 1 2"
  by (simp add: small_snapshot_plan ratio_quarter deviation_quarter default_price_tolerance
      rounded_seven_quarters small_snapshot_fields)

text \<open>
  Claim C3, amended. When the deviation exceeds the tolerance and \<open>target_y\<close> is
  positive, the candidate target is the float product of \<open>target_y\<close> and the price ratio
  truncated toward zero (\<^verbatim>\<open>int\<close>, not \<^verbatim>\<open>round\<close>), and the pair
  \<open>(target_x, candidate)\<close> is in the plan if and only if the candidate differs from the
  snapshot's \<open>target_y\<close>; in every other case the plan holds no targets.
\<close>

theorem target_y_truncated:
  assumes "build_plan self snapshot predicted_price current_price realized_volatility = Inr plan"
    and "price_ratio_of predicted_price current_price = Inr price_ratio"
  shows "if py_gt (deviation_of price_ratio) (price_tolerance self) \<and> 0 < target_y snapshot
      then \<exists>f a v. float_of_int (target_y snapshot) = Inr f \<and> py_mul f price_ratio = Fin a \<and>
             v = (if 0 \<le> a then \<lfloor>a\<rfloor> else \<lceil>a\<rceil>) \<and>
             int_of_product (target_y snapshot) price_ratio = Inr v \<and>
             (if v \<noteq> target_y snapshot
              then plan_target_x plan = Some (target_x snapshot) \<and> plan_target_y plan = Some v
              else plan_target_x plan = None \<and> plan_target_y plan = None)
      else plan_target_x plan = None \<and> plan_target_y plan = None"
proof -
  from assms(1) obtain r new_mult_y new_concentration new_spread new_target_y where
    r: "price_ratio_of predicted_price current_price = Inr r" and
    ty: "adjust_target_y self snapshot r = Inr new_target_y" and
    plan: "plan = assemble snapshot new_mult_y new_concentration new_spread
             (target_x snapshot) new_target_y"
    by (rule build_plan_InrD)
  from r assms(2) have r_eq: "r = price_ratio" by simp
  show ?thesis
  proof (cases "py_gt (deviation_of price_ratio) (price_tolerance self) \<and> 0 < target_y snapshot")
    case True
    with ty r_eq have v: "int_of_product (target_y snapshot) price_ratio = Inr new_target_y"
      by (simp add: adjust_target_y_def)
    from int_of_product_truncates [OF v] obtain f a where
      fa: "float_of_int (target_y snapshot) = Inr f" "py_mul f price_ratio = Fin a"
          "new_target_y = (if 0 \<le> a then \<lfloor>a\<rfloor> else \<lceil>a\<rceil>)"
      by blast
    have "if new_target_y \<noteq> target_y snapshot
          then plan_target_x plan = Some (target_x snapshot) \<and> plan_target_y plan = Some new_target_y
          else plan_target_x plan = None \<and> plan_target_y plan = None"
      by (simp add: plan assemble_def Let_def)
    with fa v have "\<exists>f a v. float_of_int (target_y snapshot) = Inr f \<and> py_mul f price_ratio = Fin a \<and>
             v = (if 0 \<le> a then \<lfloor>a\<rfloor> else \<lceil>a\<rceil>) \<and>
             int_of_product (target_y snapshot) price_ratio = Inr v \<and>
             (if v \<noteq> target_y snapshot
              then plan_target_x plan = Some (target_x snapshot) \<and> plan_target_y plan = Some v
              else plan_target_x plan = None \<and> plan_target_y plan = None)"
      by blast
    then show ?thesis unfolding if_P [OF True] .
  next
    case False
    with ty r_eq have "new_target_y = target_y snapshot"
      by (simp add: adjust_target_y_def)
    then have "plan_target_x plan = None \<and> plan_target_y plan = None"
      by (simp add: plan assemble_def Let_def)
    then show ?thesis unfolding if_not_P [OF False] .
  qed
qed

theorem target_y_truncated_witness:
  "py_gt (deviation_of (Fin (1 / 4))) (price_tolerance default_engine) \<and>
   0 < target_y small_snapshot \<and>
   (\<exists>f a v. float_of_int (target_y small_snapshot) = Inr f \<and> py_mul f (Fin (1 / 4)) = Fin a \<and>
      v = (if 0 \<le> a then \<lfloor>a\<rfloor> else \<lceil>a\<rceil>) \<and>
      int_of_product (target_y small_snapshot) (Fin (1 / 4)) = Inr v \<and>
      (if v \<noteq> target_y small_snapshot
       then plan_target_x 
        \<lparr>plan_mult_x = 7, plan_mult_y = 1, plan_concentration = 1000000,
          plan_spread = Some 530, plan_target_x = Some 100, plan_target_y = Some 1\<rparr> = Some (target_x small_snapshot) \<and> plan_target_y 
        \<lparr>plan_mult_x = 7, plan_mult_y = 1, plan_concentration = 1000000,
          plan_spread = Some 530, plan_target_x = Some 100, plan_target_y = Some 1\<rparr> = Some v
       else plan_target_x 
        \<lparr>plan_mult_x = 7, plan_mult_y = 1, plan_concentration = 1000000,
          plan_spread = Some 530, plan_target_x = Some 100, plan_target_y = Some 1\<rparr> = None \<and> plan_target_y 
        \<lparr>plan_mult_x = 7, plan_mult_y = 1, plan_concentration = 1000000,
          plan_spread = Some 530, plan_target_x = Some 100, plan_target_y = Some 1\<rparr> = None))"
  using target_y_truncated [OF small_snapshot_plan ratio_quarter]
  by (simp add: deviation_quarter default_price_tolerance small_snapshot_fields)

text \<open>
  With \<open>target_y = 7\<close> and ratio 0.25 the plan's target is 1, where rounding 1.75 gives 2.
\<close>

theorem target_y_rounding_counterexample:
  "build_plan default_engine small_snapshot (Fin 1) (Fin 4) (Fin (1 / 16)) = Inr 
        \<lparr>plan_mult_x = 7, plan_mult_y = 1, plan_concentration = 1000000,
          plan_spread = Some 530, plan_target_x = Some 100, plan_target_y = Some 1\<rparr> \<and>
   price_ratio_of (Fin 1) (Fin 4) = Inr (Fin (1 / 4)) \<and>
   py_gt (deviation_of (Fin (1 / 4))) (price_tolerance default_engine) \<and>
   0 < target_y small_snapshot \<and>
   round_of_product (target_y small_snapshot) (Fin (1 / 4)) = Inr 2 \<and>
   2 \<noteq> target_y small_snapshot \<and>
   plan_target_y 
        \<lparr>plan_mult_x = 7, plan_mult_y = 1, plan_concentration = 1000000,
          plan_spread = Some 530, plan_target_x = Some 100, plan_target_y = Some 1\<rparr> \<noteq> Some 2"
  by (simp add: small_snapshot_plan ratio_quarter deviation_quarter default_price_tolerance
      rounded_seven_quarters small_snapshot_fields)

text \<open>
  Claim C4. In every returned plan \<open>target_x\<close> and \<open>target_y\<close> are both present or
  both absent, and when they are present at least one differs from the snapshot's value.
\<close>

theorem targets_both_or_neither:
  "build_plan self snapshot predicted_price current_price realized_volatility = Inr plan \<Longrightarrow>
     (plan_target_x plan = None \<longleftrightarrow> plan_target_y plan = None) \<and>
     (\<forall>tx ty. plan_target_x plan = Some tx \<and> plan_target_y plan = Some ty \<longrightarrow>
        tx \<noteq> target_x snapshot \<or> ty \<noteq> target_y snapshot)"
  by (erule build_plan_InrD) (simp add: assemble_def Let_def)

theorem targets_both_or_neither_witness:
  "(\<exists>plan. build_plan default_engine small_snapshot (Fin 1) (Fin 4) (Fin (1 / 16)) = Inr plan \<and>
      plan_target_x plan = Some 100 \<and> plan_target_y plan = Some 1) \<and>
   target_x small_snapshot = 100 \<and> target_y small_snapshot \<noteq> 1"
  using targets_both_or_neither [OF small_snapshot_plan] small_snapshot_plan
  by (simp add: small_snapshot_fields)

text \<open>
  Claim C5. The plan's spread is present if and only if the realized volatility is
  strictly above the threshold, and then it is \<open>min FEE_BASE (spread + spread_step)\<close>, at
  most \<open>FEE_BASE = 1000000\<close>.
\<close>

theorem spread_iff_volatile:
  "build_plan self snapshot predicted_price current_price realized_volatility = Inr plan \<Longrightarrow>
     (if py_gt realized_volatility (volatility_threshold self)
      then plan_spread plan = Some (min FEE_BASE (spread snapshot + spread_step self))
      else plan_spread plan = None) \<and>
     (\<forall>v. plan_spread plan = Some v \<longrightarrow> v \<le> FEE_BASE) \<and> FEE_BASE = 1000000"
  by (erule build_plan_InrD)
     (auto simp: assemble_def volatility_branch_def FEE_BASE_def Let_def
           split: if_splits sum.splits prod.splits)

theorem spread_iff_volatile_witness:
  "py_gt (Fin (1 / 16)) (volatility_threshold default_engine) \<and>
   (\<exists>plan. build_plan default_engine small_snapshot (Fin 1) (Fin 4) (Fin (1 / 16)) = Inr plan \<and>
      plan_spread plan = Some 530) \<and>
   Some 530 = Some (min FEE_BASE (spread small_snapshot + spread_step default_engine))"
  using spread_iff_volatile [OF small_snapshot_plan] small_snapshot_plan
  by (simp add: default_volatility_threshold)

text \<open>
  Claim C6. With the inclusive clamp range \<open>(lower, upper)\<close> the plan's concentration is
  \<open>max lower (min c upper)\<close>, where \<open>c\<close> is \<^verbatim>\<open>int(concentration * widen_factor)\<close> when the
  volatility exceeds the threshold and the snapshot's concentration otherwise. It is never
  below \<open>lower\<close> and, the range being one (\<open>lower \<le> upper\<close>), never above \<open>upper\<close>, so it
  always lies within the bounds; at low volatility a concentration within the bounds passes
  through unchanged.
\<close>

theorem concentration_clamped:
  "build_plan self snapshot predicted_price current_price realized_volatility = Inr plan \<Longrightarrow>
   concentration_bounds self = (lower, upper) \<Longrightarrow>
     (if py_gt realized_volatility (volatility_threshold self)
      then \<exists>c. int_of_product (concentration snapshot) (concentration_widen_factor self) = Inr c \<and>
             plan_concentration plan = max lower (min c upper)
      else plan_concentration plan = max lower (min (concentration snapshot) upper)) \<and>
     lower \<le> plan_concentration plan \<and>
     (lower \<le> upper \<longrightarrow> plan_concentration plan \<le> upper) \<and>
     (\<not> py_gt realized_volatility (volatility_threshold self) \<and>
      lower \<le> concentration snapshot \<and> concentration snapshot \<le> upper \<longrightarrow>
        plan_concentration plan = concentration snapshot)"
  by (erule build_plan_InrD)
     (auto simp: assemble_def volatility_branch_def Let_def
           split: if_splits sum.splits prod.splits)

theorem concentration_clamped_witness:
  "concentration_bounds default_engine = (1000000, 200000000) \<and>
   py_gt (Fin (1 / 16)) (volatility_threshold default_engine) \<and>
   (\<exists>c. int_of_product (concentration small_snapshot) (concentration_widen_factor default_engine) = Inr c \<and>
      plan_concentration 
        \<lparr>plan_mult_x = 7, plan_mult_y = 1, plan_concentration = 1000000,
          plan_spread = Some 530, plan_target_x = Some 100, plan_target_y = Some 1\<rparr> = max 1000000 (min c 200000000)) \<and>
   (1000000 :: int) \<le> 200000000 \<and>
   1000000 \<le> plan_concentration 
        \<lparr>plan_mult_x = 7, plan_mult_y = 1, plan_concentration = 1000000,
          plan_spread = Some 530, plan_target_x = Some 100, plan_target_y = Some 1\<rparr> \<and> plan_concentration 
        \<lparr>plan_mult_x = 7, plan_mult_y = 1, plan_concentration = 1000000,
          plan_spread = Some 530, plan_target_x = Some 100, plan_target_y = Some 1\<rparr> \<le> 200000000"
  using concentration_clamped [OF small_snapshot_plan, of 1000000 200000000]
  by (simp add: default_engine_fields default_volatility_threshold)

text \<open>
  Claim C7, amended. A spread in the plan is \<open>min FEE_BASE (spread + spread_step)\<close>. It
  equals the snapshot's spread exactly when the step is 0 and the spread is at most
  \<open>FEE_BASE\<close>, or the spread is already \<open>FEE_BASE\<close> and the step is not negative; in every
  other case it differs.
\<close>

theorem spread_changes_unless_capped:
  "build_plan self snapshot predicted_price current_price realized_volatility = Inr plan \<Longrightarrow>
   plan_spread plan = Some v \<Longrightarrow>
     py_gt realized_volatility (volatility_threshold self) \<and>
     v = min FEE_BASE (spread snapshot + spread_step self) \<and>
     (v = spread snapshot \<longleftrightarrow>
        spread_step self = 0 \<and> spread snapshot \<le> FEE_BASE \<or>
        spread snapshot = FEE_BASE \<and> 0 \<le> spread_step self)"
  by (erule build_plan_InrD)
     (auto simp: assemble_def volatility_branch_def Let_def
           split: if_splits sum.splits prod.splits)

theorem spread_changes_unless_capped_witness:
  "plan_spread 
        \<lparr>plan_mult_x = 7, plan_mult_y = 1, plan_concentration = 1000000,
          plan_spread = Some 530, plan_target_x = Some 100, plan_target_y = Some 1\<rparr> = Some 530 \<and>
   py_gt (Fin (1 / 16)) (volatility_threshold default_engine) \<and>
   530 = min FEE_BASE (spread small_snapshot + spread_step default_engine) \<and>
   spread_step default_engine \<noteq> 0 \<and> spread small_snapshot \<noteq> FEE_BASE \<and>
   530 \<noteq> spread small_snapshot"
  using spread_changes_unless_capped [OF small_snapshot_plan, of 530]
  by (simp add: default_engine_fields small_snapshot_fields FEE_BASE_def)

text \<open>
  With the snapshot's spread at \<open>FEE_BASE\<close> the plan carries the same spread.
\<close>

theorem spread_unchanged_counterexample:
  "py_gt (Fin (1 / 16)) (volatility_threshold default_engine) \<and>
   build_plan default_engine capped_snapshot (Fin 1) (Fin 4) (Fin (1 / 16)) =
     Inr \<lparr>plan_mult_x = 7, plan_mult_y = 1, plan_concentration = 1000000,
          plan_spread = Some 1000000, plan_target_x = Some 100, plan_target_y = Some 1\<rparr> \<and>
   spread capped_snapshot = 1000000"
  by (simp add: capped_snapshot_plan default_volatility_threshold) (simp add: capped_snapshot_def)

text \<open>
  Claim C8. Every call that returns a plan returns the snapshot's \<open>mult_x\<close> in it: the
  engine never adjusts the multiplier of the x side.
\<close>

theorem mult_x_passes_through:
  "build_plan self snapshot predicted_price current_price realized_volatility = Inr plan \<Longrightarrow>
     plan_mult_x plan = mult_x snapshot"
  by (erule build_plan_InrD) (simp add: assemble_def Let_def)

theorem mult_x_passes_through_witness:
  "build_plan default_engine small_snapshot (Fin 1) (Fin 4) (Fin (1 / 16)) =
     Inr \<lparr>plan_mult_x = 7, plan_mult_y = 1, plan_concentration = 1000000,
          plan_spread = Some 530, plan_target_x = Some 100, plan_target_y = Some 1\<rparr>
   \<and> mult_x small_snapshot = 7"
  using mult_x_passes_through [OF small_snapshot_plan] small_snapshot_plan by simp

text \<open>
  Claim C9. Whenever the deviation exceeds the tolerance, the plan's \<open>mult_y\<close> is at
  least 1, whatever the truncated product is.
\<close>

theorem mult_y_at_least_one:
  "build_plan self snapshot predicted_price current_price realized_volatility = Inr plan \<Longrightarrow>
   price_ratio_of predicted_price current_price = Inr price_ratio \<Longrightarrow>
   py_gt (deviation_of price_ratio) (price_tolerance self) \<Longrightarrow>
     1 \<le> plan_mult_y plan"
  by (erule build_plan_InrD)
     (auto simp: assemble_def adjust_mult_y_def Let_def split: if_splits sum.splits)

theorem mult_y_at_least_one_witness:
  "price_ratio_of (Fin 1) (Fin 4) = Inr (Fin (1 / 4)) \<and>
   py_gt (deviation_of (Fin (1 / 4))) (price_tolerance default_engine) \<and>
   (\<exists>plan. build_plan default_engine small_snapshot (Fin 1) (Fin 4) (Fin (1 / 16)) = Inr plan \<and>
      1 \<le> plan_mult_y plan)"
  using mult_y_at_least_one [OF small_snapshot_plan ratio_quarter] small_snapshot_plan
  by (simp add: ratio_quarter deviation_quarter default_price_tolerance)

text \<open>
  Claim C10. When the snapshot's \<open>target_y\<close> is 0 the plan holds no targets, however
  large the deviation is.
\<close>

theorem no_rebalance_without_target_y:
  "build_plan self snapshot predicted_price current_price realized_volatility = Inr plan \<Longrightarrow>
   target_y snapshot = 0 \<Longrightarrow>
     plan_target_x plan = None \<and> plan_target_y plan = None"
  by (erule build_plan_InrD)
     (auto simp: assemble_def adjust_target_y_def Let_def split: if_splits sum.splits)

theorem no_rebalance_without_target_y_witness:
  "target_y untargeted_snapshot = 0 \<and>
   py_gt (deviation_of (Fin (1 / 4))) (price_tolerance default_engine) \<and>
   (\<exists>plan. build_plan default_engine untargeted_snapshot (Fin 1) (Fin 4) (Fin (1 / 16)) = Inr plan \<and>
      plan_target_x plan = None \<and> plan_target_y plan = None)"
  using no_rebalance_without_target_y [OF untargeted_snapshot_plan] untargeted_snapshot_plan
  by (simp add: untargeted_snapshot_def deviation_quarter default_price_tolerance)

end
